theory Spec2Isabelle
  imports Main "HOL-Library.Sublist"
begin

section \<open>Strings and numbers of the host language\<close>

text \<open>
  Text is a list of bytes (UTF-8).  \<open>str_includes s t\<close> is JavaScript's
  \<^verbatim>\<open>s.includes(t)\<close>: \<open>t\<close> occurs in \<open>s\<close> as a contiguous run.
\<close>

definition str_includes :: "string \<Rightarrow> string \<Rightarrow> bool" where
  "str_includes s t = sublist t s"

text \<open>The template fragment \<^verbatim>\<open>'${s}'\<close>: the text between two apostrophes.\<close>

definition single_quoted :: "string \<Rightarrow> string" where
  "single_quoted s = [CHR 0x27] @ s @ [CHR 0x27]"

text \<open>
  Numbers.  The program's numbers are IEEE doubles.  The model takes the finite decimals
  \<open>Decimal m e\<close>, standing for \<open>m / 10 ^ e\<close>: these are the numbers that JSON text and
  the size catalog denote.  For a decimal of at most 15 significant digits and of
  magnitude in [1e-6, 1e21), \<^verbatim>\<open>Number.prototype.toString\<close> prints the shortest
  decimal that reads back as the same double, which is the decimal itself without
  trailing zeros; that is what \<open>Number_toString\<close> computes.  Outside that range the
  program prints exponent notation or the numeral of a rounded double, which
  \<open>Number_toString\<close> does not follow: the sizes of the catalog (600 to 1600) and the
  example datasets are inside it.  Pixel sizes are integers
  (\<open>int\<close>), as in the catalog; an integer divided by 100 is the correctly rounded
  double of a two-place decimal and prints as that decimal.
\<close>

datatype number = Decimal int nat

fun digits_of :: "nat \<Rightarrow> string" where
  "digits_of n =
     (if n < 10 then [''0123456789'' ! n]
      else digits_of (n div 10) @ [''0123456789'' ! (n mod 10)])"

declare digits_of.simps [simp del]

definition fraction_digits :: "nat \<Rightarrow> nat \<Rightarrow> string" where
  "fraction_digits e f =
     (if e = 0 then []
      else let ds = digits_of f;
               padded = replicate (e - length ds) (CHR ''0'') @ ds
           in rev (dropWhile (\<lambda>c. c = CHR ''0'') (rev padded)))"

fun Number_toString :: "number \<Rightarrow> string" where
  "Number_toString (Decimal m e) =
     (let a = nat \<bar>m\<bar>;
          frac = fraction_digits e (a mod 10 ^ e)
      in (if m < 0 then ''-'' else []) @ digits_of (a div 10 ^ e)
         @ (if frac = [] then [] else ''.'' @ frac))"

definition of_pixels :: "int \<Rightarrow> number" where
  "of_pixels n = Decimal n 0"

text \<open>\<^verbatim>\<open>n/100\<close> for an integer \<open>n\<close>.\<close>

definition divide_by_100 :: "int \<Rightarrow> number" where
  "divide_by_100 n = Decimal n 2"

subsection \<open>JSON.stringify on arrays of strings and of numbers\<close>

definition hex_digit :: "nat \<Rightarrow> char" where
  "hex_digit n = ''0123456789abcdef'' ! (n mod 16)"

text \<open>
  One character inside a JSON string: the quotation mark and the backslash are
  escaped, the control characters below 0x20 have a short escape or a \<^verbatim>\<open>\u00XX\<close>
  one, everything else stands for itself.
\<close>

definition escape_char :: "char \<Rightarrow> string" where
  "escape_char c =
     (let k = (of_char c :: nat) in
      if k = 0x22 then [CHR 0x5C, CHR 0x22]
      else if k = 0x5C then [CHR 0x5C, CHR 0x5C]
      else if k = 0x08 then [CHR 0x5C, CHR ''b'']
      else if k = 0x0C then [CHR 0x5C, CHR ''f'']
      else if k = 0x0A then [CHR 0x5C, CHR ''n'']
      else if k = 0x0D then [CHR 0x5C, CHR ''r'']
      else if k = 0x09 then [CHR 0x5C, CHR ''t'']
      else if k < 0x20 then [CHR 0x5C, CHR ''u'', CHR ''0'', CHR ''0'',
                             hex_digit (k div 16), hex_digit k]
      else [c])"

definition QuoteJSONString :: "string \<Rightarrow> string" where
  "QuoteJSONString s = [CHR 0x22] @ concat (map escape_char s) @ [CHR 0x22]"

fun join :: "string \<Rightarrow> string list \<Rightarrow> string" where
  "join sep [] = []"
| "join sep [x] = x"
| "join sep (x # y # ys) = x @ sep @ join sep (y # ys)"

definition JSON_stringify_strings :: "string list \<Rightarrow> string" where
  "JSON_stringify_strings xs = ''['' @ join '','' (map QuoteJSONString xs) @ '']''"

definition JSON_stringify_numbers :: "number list \<Rightarrow> string" where
  "JSON_stringify_numbers xs = ''['' @ join '','' (map Number_toString xs) @ '']''"

subsection \<open>Untyped values\<close>

text \<open>
  A JavaScript value as \<^verbatim>\<open>JSON.parse\<close> can return it, and \<open>JUndefined\<close> for a
  property that is absent.  An object is the list of its own properties in order.
\<close>

datatype jsval =
    JUndefined
  | JNull
  | JBool bool
  | JNum number
  | JStr string
  | JArr "jsval list"
  | JObj "(string \<times> jsval) list"

text \<open>
  \<^verbatim>\<open>v === 'literal'\<close>: strict equality with a string literal holds for the string
  with the same characters only; an object is never strictly equal to a string.
\<close>

fun strict_equals_string :: "jsval \<Rightarrow> string \<Rightarrow> bool" where
  "strict_equals_string (JStr t) s = (t = s)"
| "strict_equals_string _ s = False"

text \<open>\<^verbatim>\<open>xs[i]\<close> on an array: \<open>None\<close> is \<^verbatim>\<open>undefined\<close>, out of range.\<close>

definition element_at :: "'a list \<Rightarrow> nat \<Rightarrow> 'a option" where
  "element_at xs i = (if i < length xs then Some (xs ! i) else None)"

text \<open>\<^verbatim>\<open>${x}\<close> for a string that may be \<^verbatim>\<open>undefined\<close>.\<close>

fun interpolate :: "string option \<Rightarrow> string" where
  "interpolate None = ''undefined''"
| "interpolate (Some s) = s"

section \<open>Data model\<close>

record chart_type =
  chart_id :: string
  chart_name :: string
  library :: string
  chart_description :: string
  icon :: string
  category :: string

record dataset =
  ds_name :: string
  rows :: "string list"
  cols :: "number list"
  ds_values :: "number list option"
  ds_description :: "string option"

record color_scheme =
  cs_name :: string
  cs_value :: string
  cs_colors :: "string list"

record size_option =
  sz_name :: string
  sz_value :: string
  width :: int
  height :: int

text \<open>
  The customization state of \<^verbatim>\<open>ChartBuilder\<close>.  The component stores a catalog
  entry (an object) in \<open>theme\<close>, and the generator compares the field with a string
  literal; the field is kept as an untyped value, so that both are inputs of the model.
\<close>

record customization =
  colors :: color_scheme
  theme :: jsval
  size_option :: size_option
  customWidth :: int
  customHeight :: int

section \<open>Static catalogs (mock.js)\<close>

definition mockChartTypes :: "chart_type list" where
  "mockChartTypes =
    [ \<lparr>chart_id = ''matplotlib_line'', chart_name = ''Line Chart'', library = ''matplotlib'',
       chart_description = ''Perfect for showing trends over time'',
       icon = [CHR 0xF0, CHR 0x9F, CHR 0x93, CHR 0x88], category = ''basic''\<rparr>,
      \<lparr>chart_id = ''matplotlib_bar'', chart_name = ''Bar Chart'', library = ''matplotlib'',
       chart_description = ''Great for comparing categories'',
       icon = [CHR 0xF0, CHR 0x9F, CHR 0x93, CHR 0x8A], category = ''basic''\<rparr>,
      \<lparr>chart_id = ''matplotlib_scatter'', chart_name = ''Scatter Plot'', library = ''matplotlib'',
       chart_description = ''Shows relationships between variables'',
       icon = [CHR 0xE2, CHR 0x9A, CHR 0xAA], category = ''basic''\<rparr>,
      \<lparr>chart_id = ''seaborn_heatmap'', chart_name = ''Heatmap'', library = ''seaborn'',
       chart_description = ''Visualize data through colors'',
       icon = [CHR 0xF0, CHR 0x9F, CHR 0x94, CHR 0xA5], category = ''statistical''\<rparr>,
      \<lparr>chart_id = ''seaborn_violin'', chart_name = ''Violin Plot'', library = ''seaborn'',
       chart_description = ''Show distribution shapes'',
       icon = [CHR 0xF0, CHR 0x9F, CHR 0x8E, CHR 0xBB], category = ''statistical''\<rparr>,
      \<lparr>chart_id = ''plotly_interactive'', chart_name = ''Interactive Chart'', library = ''plotly'',
       chart_description = ''Hover, zoom, and pan capabilities'',
       icon = [CHR 0xF0, CHR 0x9F, CHR 0x96, CHR 0xB1, CHR 0xEF, CHR 0xB8, CHR 0x8F],
       category = ''interactive''\<rparr> ]"

definition mock_colors :: "color_scheme list" where
  "mock_colors =
    [ \<lparr>cs_name = ''Default'', cs_value = ''default'', cs_colors = [''#1f77b4'', ''#ff7f0e'', ''#2ca02c'']\<rparr>,
      \<lparr>cs_name = ''Viridis'', cs_value = ''viridis'', cs_colors = [''#440154'', ''#31688e'', ''#35b779'']\<rparr>,
      \<lparr>cs_name = ''Plasma'', cs_value = ''plasma'', cs_colors = [''#0d0887'', ''#cc4778'', ''#f0f921'']\<rparr>,
      \<lparr>cs_name = ''Ocean'', cs_value = ''ocean'', cs_colors = [''#003f5c'', ''#58508d'', ''#bc5090'']\<rparr>,
      \<lparr>cs_name = ''Sunset'', cs_value = ''sunset'', cs_colors = [''#ff6b35'', ''#f7931e'', ''#ffd23f'']\<rparr> ]"

definition theme_entry :: "string \<Rightarrow> string \<Rightarrow> string \<Rightarrow> jsval" where
  "theme_entry n v d = JObj [(''name'', JStr n), (''value'', JStr v), (''description'', JStr d)]"

definition mock_themes :: "jsval list" where
  "mock_themes =
    [ theme_entry ''Clean'' ''clean'' ''Minimal and professional'',
      theme_entry ''Dark'' ''dark'' ''Dark theme for modern look'',
      theme_entry ''Scientific'' ''scientific'' ''Academic publication style'',
      theme_entry ''Presentation'' ''presentation'' ''Bold for presentations'' ]"

definition mock_sizes :: "size_option list" where
  "mock_sizes =
    [ \<lparr>sz_name = ''Small'', sz_value = ''small'', width = 800, height = 600\<rparr>,
      \<lparr>sz_name = ''Medium'', sz_value = ''medium'', width = 1200, height = 800\<rparr>,
      \<lparr>sz_name = ''Large'', sz_value = ''large'', width = 1600, height = 1000\<rparr>,
      \<lparr>sz_name = ''Custom'', sz_value = ''custom'', width = 1200, height = 800\<rparr> ]"

section \<open>The code generator (mock.js, generateMockPythonCode)\<close>

text \<open>\<^verbatim>\<open>values && values.length > 0\<close>: an absent field is falsy, an array is truthy.\<close>

definition has_values :: "dataset \<Rightarrow> bool" where
  "has_values ds = (case ds_values ds of None \<Rightarrow> False | Some vs \<Rightarrow> 0 < length vs)"

text \<open>The initial value of \<^verbatim>\<open>code\<close>: the imports and the bindings of rows and cols.\<close>

definition data_setup :: "dataset \<Rightarrow> string" where
  "data_setup ds =
     ''import matplotlib.pyplot as plt\<newline>''
   @ ''import seaborn as sns\<newline>''
   @ ''import plotly.express as px\<newline>''
   @ ''import pandas as pd\<newline>''
   @ ''import numpy as np\<newline>''
   @ ''\<newline>''
   @ ''# Data setup\<newline>''
   @ ''rows = '' @ JSON_stringify_strings (rows ds) @ ''\<newline>''
   @ ''cols = '' @ JSON_stringify_numbers (cols ds)"

definition values_binding :: "dataset \<Rightarrow> string" where
  "values_binding ds =
     ''\<newline>''
   @ ''values = '' @ JSON_stringify_numbers (case ds_values ds of None \<Rightarrow> [] | Some vs \<Rightarrow> vs)"

text \<open>The style line: the text chosen by \<^verbatim>\<open>theme === 'dark'\<close>.\<close>

definition style_name :: "jsval \<Rightarrow> string" where
  "style_name th = (if strict_equals_string th ''dark'' then ''dark_background'' else ''default'')"

definition frame_and_style :: "dataset \<Rightarrow> customization \<Rightarrow> string" where
  "frame_and_style ds cu =
     ''\<newline>''
   @ ''\<newline>''
   @ ''# Create DataFrame for easier manipulation\<newline>''
   @ ''df = pd.DataFrame({\<newline>''
   @ ''    'categories': rows,\<newline>''
   @ ''    'values': cols''
   @ (if has_values ds then '',\<newline>    'weights': values'' else [])
   @ ''\<newline>''
   @ ''})\<newline>''
   @ ''\<newline>''
   @ ''# Set up the plot style\<newline>''
   @ ''plt.style.use('' @ single_quoted (style_name (theme cu)) @ '')\<newline>''
   @ ''figure_size = ('' @ Number_toString (divide_by_100 (width (size_option cu)))
   @ '', '' @ Number_toString (divide_by_100 (height (size_option cu)))
   @ '')\<newline>''
   @ ''\<newline>''"

text \<open>The value of \<^verbatim>\<open>code\<close> when the switch is reached: the common preamble.\<close>

definition preamble :: "dataset \<Rightarrow> customization \<Rightarrow> string" where
  "preamble ds cu =
     (let code = data_setup ds;
          code = (if has_values ds then code @ values_binding ds else code)
      in code @ frame_and_style ds cu)"

definition line_chart_body :: "dataset \<Rightarrow> string" where
  "line_chart_body ds =
     ''# Create line chart\<newline>''
   @ ''plt.figure(figsize=figure_size)\<newline>''
   @ ''plt.plot(rows, cols, marker='o', linewidth=2.5, markersize=8)\<newline>''
   @ ''plt.title('' @ single_quoted (ds_name ds)
   @ '', fontsize=16, fontweight='bold', pad=20)\<newline>''
   @ ''plt.xlabel('Categories', fontsize=12)\<newline>''
   @ ''plt.ylabel('Values', fontsize=12)\<newline>''
   @ ''plt.grid(True, alpha=0.3)\<newline>''
   @ ''plt.tight_layout()\<newline>''
   @ ''plt.savefig('visualization.png', dpi=300, bbox_inches='tight')\<newline>''
   @ ''plt.show()''"

definition bar_chart_body :: "dataset \<Rightarrow> customization \<Rightarrow> string" where
  "bar_chart_body ds cu =
     ''# Create bar chart\<newline>''
   @ ''plt.figure(figsize=figure_size)\<newline>''
   @ ''bars = plt.bar(rows, cols, color=''
   @ single_quoted (interpolate (element_at (cs_colors (colors cu)) 0))
   @ '', alpha=0.8, edgecolor='black', linewidth=0.8)\<newline>''
   @ ''plt.title('' @ single_quoted (ds_name ds)
   @ '', fontsize=16, fontweight='bold', pad=20)\<newline>''
   @ ''plt.xlabel('Categories', fontsize=12)\<newline>''
   @ ''plt.ylabel('Values', fontsize=12)\<newline>''
   @ ''plt.xticks(rotation=45 if len(rows) > 4 else 0)\<newline>''
   @ ''\<newline>''
   @ ''# Add value labels on bars\<newline>''
   @ ''for bar, value in zip(bars, cols):\<newline>''
   @ ''    plt.text(bar.get_x() + bar.get_width()/2, bar.get_height() + max(cols)*0.01,\<newline>''
   @ ''             f'{value:,}', ha='center', va='bottom', fontweight='bold')\<newline>''
   @ ''\<newline>''
   @ ''plt.tight_layout()\<newline>''
   @ ''plt.savefig('visualization.png', dpi=300, bbox_inches='tight')\<newline>''
   @ ''plt.show()''"

definition heatmap_body :: "dataset \<Rightarrow> customization \<Rightarrow> string" where
  "heatmap_body ds cu =
     ''# Create heatmap\<newline>''
   @ ''plt.figure(figsize=figure_size)\<newline>''
   @ ''# Reshape data for heatmap if needed\<newline>''
   @ ''heatmap_data = np.array(cols).reshape(-1, 1) if len(np.array(cols).shape) == 1 else cols\<newline>''
   @ ''sns.heatmap(heatmap_data, annot=True, cmap='' @ single_quoted (cs_value (colors cu))
   @ '', \<newline>''
   @ ''           xticklabels=rows[:len(heatmap_data[0])] if len(heatmap_data.shape) > 1 else ['Values'],\<newline>''
   @ ''           yticklabels=rows, square=True, linewidths=0.5)\<newline>''
   @ ''plt.title('' @ single_quoted (ds_name ds)
   @ '', fontsize=16, fontweight='bold', pad=20)\<newline>''
   @ ''plt.tight_layout()\<newline>''
   @ ''plt.savefig('visualization.png', dpi=300, bbox_inches='tight')\<newline>''
   @ ''plt.show()''"

text \<open>The layout template: the text chosen by \<^verbatim>\<open>theme === 'dark'\<close>.\<close>

definition template_name :: "jsval \<Rightarrow> string" where
  "template_name th = (if strict_equals_string th ''dark'' then ''plotly_dark'' else ''plotly_white'')"

definition plotly_body :: "dataset \<Rightarrow> customization \<Rightarrow> string" where
  \<open>plotly_body ds cu =
     ''# Create interactive chart with Plotly\<newline>''
   @ ''import plotly.graph_objects as go\<newline>''
   @ ''\<newline>''
   @ ''fig = go.Figure()\<newline>''
   @ ''fig.add_trace(go.Scatter(\<newline>''
   @ ''    x=rows,\<newline>''
   @ ''    y=cols,\<newline>''
   @ ''    mode='lines+markers',\<newline>''
   @ ''    name='' @ single_quoted (ds_name ds) @ '',\<newline>''
   @ ''    line=dict(width=3, color=''
   @ single_quoted (interpolate (element_at (cs_colors (colors cu)) 0)) @ ''),\<newline>''
   @ ''    marker=dict(size=10, color=''
   @ single_quoted (interpolate (element_at (cs_colors (colors cu)) 1)) @ '')\<newline>''
   @ ''))\<newline>''
   @ ''\<newline>''
   @ ''fig.update_layout(\<newline>''
   @ ''    title={\<newline>''
   @ ''        'text': '' @ single_quoted (ds_name ds) @ '',\<newline>''
   @ ''        'x': 0.5,\<newline>''
   @ ''        'xanchor': 'center',\<newline>''
   @ ''        'font': {'size': 18, 'family': 'Arial, sans-serif'}\<newline>''
   @ ''    },\<newline>''
   @ ''    xaxis_title='Categories',\<newline>''
   @ ''    yaxis_title='Values',\<newline>''
   @ ''    width='' @ Number_toString (of_pixels (width (size_option cu))) @ '',\<newline>''
   @ ''    height='' @ Number_toString (of_pixels (height (size_option cu))) @ '',\<newline>''
   @ ''    hovermode='closest',\<newline>''
   @ ''    template='' @ single_quoted (template_name (theme cu)) @ ''\<newline>''
   @ '')\<newline>''
   @ ''\<newline>''
   @ ''fig.show()\<newline>''
   @ ''# To save: fig.write_html("visualization.html")''\<close>

definition default_body :: "dataset \<Rightarrow> string" where
  "default_body ds =
     ''# Basic visualization\<newline>''
   @ ''plt.figure(figsize=figure_size)\<newline>''
   @ ''plt.plot(rows, cols)\<newline>''
   @ ''plt.title('' @ single_quoted (ds_name ds) @ '')\<newline>''
   @ ''plt.savefig('visualization.png')\<newline>''
   @ ''plt.show()''"

text \<open>
  The generator.  Its inputs are typed as the data model has them, so no property
  read can fail and the result is a plain string; the switch compares the id with
  each case label in order and falls to the default.
\<close>

definition generateMockPythonCode :: "chart_type \<Rightarrow> dataset \<Rightarrow> customization \<Rightarrow> string" where
  "generateMockPythonCode chartType ds cu =
     (let ident = chart_id chartType;
          code = preamble ds cu
      in if ident = ''matplotlib_line'' then code @ line_chart_body ds
         else if ident = ''matplotlib_bar'' then code @ bar_chart_body ds cu
         else if ident = ''seaborn_heatmap'' then code @ heatmap_body ds cu
         else if ident = ''plotly_interactive'' then code @ plotly_body ds cu
         else code @ default_body ds)"

text \<open>
  \<^verbatim>\<open>ChartBuilder\<close>: the initial customization, and the handlers of the two sliders
  shown for the custom size, \<^verbatim>\<open>updateCustomization('customWidth', value)\<close> and
  \<^verbatim>\<open>updateCustomization('customHeight', value)\<close>.
\<close>

definition initial_customization :: customization where
  "initial_customization =
     \<lparr>colors = mock_colors ! 0, theme = mock_themes ! 0, size_option = mock_sizes ! 1,
      customWidth = 1200, customHeight = 800\<rparr>"

definition updateCustomization_customWidth :: "int \<Rightarrow> customization \<Rightarrow> customization" where
  "updateCustomization_customWidth v prev = prev\<lparr>customWidth := v\<rparr>"

definition updateCustomization_customHeight :: "int \<Rightarrow> customization \<Rightarrow> customization" where
  "updateCustomization_customHeight v prev = prev\<lparr>customHeight := v\<rparr>"

section \<open>The dataset validator (DataInput.jsx)\<close>

text \<open>
  Exceptions are values.  \<^verbatim>\<open>JSON.parse\<close> is the platform's parser, a parameter of
  the model: it returns the parsed value or throws a SyntaxError.
\<close>

datatype js_error = SyntaxError string | TypeError string | Error string

fun message :: "js_error \<Rightarrow> string" where
  "message (SyntaxError m) = m"
| "message (TypeError m) = m"
| "message (Error m) = m"

type_synonym json_parser = "string \<Rightarrow> js_error + jsval"

text \<open>Truthiness: what \<^verbatim>\<open>!v\<close> and \<^verbatim>\<open>v || d\<close> test.\<close>

fun truthy :: "jsval \<Rightarrow> bool" where
  "truthy JUndefined = False"
| "truthy JNull = False"
| "truthy (JBool b) = b"
| "truthy (JNum (Decimal m e)) = (m \<noteq> 0)"
| "truthy (JStr s) = (s \<noteq> [])"
| "truthy (JArr xs) = True"
| "truthy (JObj fs) = True"

text \<open>
  \<^verbatim>\<open>v.k\<close> for the keys this program reads (rows, cols, name), none of which is a
  property of an array, a string, a number or a boolean.  Reading a property of
  null or undefined throws a TypeError (the message is the engine's; V8's is used).
\<close>

fun get_property :: "jsval \<Rightarrow> string \<Rightarrow> js_error + jsval" where
  "get_property JNull k =
     Inl (TypeError (''Cannot read properties of null (reading '' @ single_quoted k @ '')''))"
| "get_property JUndefined k =
     Inl (TypeError (''Cannot read properties of undefined (reading '' @ single_quoted k @ '')''))"
| "get_property (JObj fs) k = Inr (case map_of fs k of None \<Rightarrow> JUndefined | Some v \<Rightarrow> v)"
| "get_property _ k = Inr JUndefined"

fun isArray :: "jsval \<Rightarrow> bool" where
  "isArray (JArr xs) = True"
| "isArray _ = False"

text \<open>\<^verbatim>\<open>v.length\<close>, read only after \<^verbatim>\<open>Array.isArray(v)\<close> has held.\<close>

fun array_length :: "jsval \<Rightarrow> nat" where
  "array_length (JArr xs) = length xs"
| "array_length _ = 0"

record validation_result =
  isValid :: bool
  data :: jsval
  error :: "string option"

text \<open>The body of the try block: the three checks in order, each throwing an Error.\<close>

definition try_validate :: "json_parser \<Rightarrow> string \<Rightarrow> js_error + jsval" where
  \<open>try_validate JSON_parse jsonString =
     (case JSON_parse jsonString of
        Inl e \<Rightarrow> Inl e
      | Inr parsed \<Rightarrow>
         (case get_property parsed ''rows'' of
            Inl e \<Rightarrow> Inl e
          | Inr r \<Rightarrow>
             if \<not> truthy r then Inl (Error ''JSON must contain "rows" and "cols" arrays'')
             else
              (case get_property parsed ''cols'' of
                 Inl e \<Rightarrow> Inl e
               | Inr c \<Rightarrow>
                  if \<not> truthy c then Inl (Error ''JSON must contain "rows" and "cols" arrays'')
                  else if \<not> isArray r \<or> \<not> isArray c
                    then Inl (Error ''"rows" and "cols" must be arrays'')
                  else if array_length r = 0 \<or> array_length c = 0
                    then Inl (Error ''Arrays cannot be empty'')
                  else Inr parsed)))\<close>

definition validateAndParseJson :: "json_parser \<Rightarrow> string \<Rightarrow> validation_result" where
  "validateAndParseJson JSON_parse jsonString =
     (case try_validate JSON_parse jsonString of
        Inr parsed \<Rightarrow> \<lparr>isValid = True, data = parsed, error = None\<rparr>
      | Inl e \<Rightarrow> \<lparr>isValid = False, data = JNull, error = Some (message e)\<rparr>)"

subsection \<open>handleJsonChange\<close>

text \<open>
  \<^verbatim>\<open>value.trim()\<close> is the empty string, which is falsy, exactly when the text
  consists of white space and line terminators: the ASCII ones, and the UTF-8
  encodings of U+00A0, U+1680, U+2000 to U+200A, U+2028, U+2029, U+202F, U+205F,
  U+3000 and U+FEFF.
\<close>

definition ascii_space :: "nat \<Rightarrow> bool" where
  "ascii_space a = (a = 0x09 \<or> a = 0x0A \<or> a = 0x0B \<or> a = 0x0C \<or> a = 0x0D \<or> a = 0x20)"

definition space3 :: "nat \<Rightarrow> nat \<Rightarrow> nat \<Rightarrow> bool" where
  "space3 a b c =
     ((a = 0xE1 \<and> b = 0x9A \<and> c = 0x80)
    \<or> (a = 0xE2 \<and> b = 0x80 \<and> ((0x80 \<le> c \<and> c \<le> 0x8A) \<or> c = 0xA8 \<or> c = 0xA9 \<or> c = 0xAF))
    \<or> (a = 0xE2 \<and> b = 0x81 \<and> c = 0x9F)
    \<or> (a = 0xE3 \<and> b = 0x80 \<and> c = 0x80)
    \<or> (a = 0xEF \<and> b = 0xBB \<and> c = 0xBF))"

fun blank :: "string \<Rightarrow> bool" where
  "blank [] = True"
| "blank (a # s) =
     (if ascii_space (of_char a) then blank s
      else (case s of
              [] \<Rightarrow> False
            | b # t \<Rightarrow>
               if of_char a = (0xC2 :: nat) \<and> of_char b = (0xA0 :: nat) then blank t
               else (case t of
                       [] \<Rightarrow> False
                     | c # u \<Rightarrow>
                        if space3 (of_char a) (of_char b) (of_char c) then blank u
                        else False)))"

text \<open>
  The own properties that \<^verbatim>\<open>{...v}\<close> copies, in order: those of an object, the
  indexed elements of an array, the indexed characters of a string, none otherwise.
\<close>

fun own_properties :: "jsval \<Rightarrow> (string \<times> jsval) list" where
  "own_properties (JObj fs) = fs"
| "own_properties (JArr xs) = zip (map digits_of [0..<length xs]) xs"
| "own_properties (JStr s) = zip (map digits_of [0..<length s]) (map (\<lambda>c. JStr [c]) s)"
| "own_properties _ = []"

text \<open>A property written after the spread: it replaces the value in place, or is added last.\<close>

fun set_property :: "(string \<times> jsval) list \<Rightarrow> string \<Rightarrow> jsval \<Rightarrow> (string \<times> jsval) list" where
  "set_property [] k v = [(k, v)]"
| "set_property ((k', v') # fs) k v =
     (if k' = k then (k, v) # fs else (k', v') # set_property fs k v)"

text \<open>
  The object passed to \<^verbatim>\<open>onDataChange\<close>:
  \<^verbatim>\<open>{...result.data, name: result.data.name || 'Custom Dataset'}\<close>.
\<close>

definition with_default_name :: "jsval \<Rightarrow> js_error + jsval" where
  "with_default_name d =
     (case get_property d ''name'' of
        Inl e \<Rightarrow> Inl e
      | Inr n \<Rightarrow>
         Inr (JObj (set_property (own_properties d) ''name''
                      (if truthy n then n else JStr ''Custom Dataset''))))"

record data_input_state =
  jsonInput :: string
  selectedExample :: string
  isValidJson :: bool

text \<open>
  The handler returns the new component state and the argument of the call of
  \<^verbatim>\<open>onDataChange\<close>, if it is called; an uncaught exception is the left summand.
\<close>

definition handleJsonChange ::
  "json_parser \<Rightarrow> string \<Rightarrow> data_input_state \<Rightarrow> js_error + (data_input_state \<times> jsval option)" where
  "handleJsonChange JSON_parse val st =
     (let st1 = st\<lparr>jsonInput := val\<rparr> in
      if \<not> blank val then
        (let result = validateAndParseJson JSON_parse val;
             st2 = st1\<lparr>isValidJson := isValid result\<rparr>
         in if isValid result then
              (case with_default_name (data result) of
                 Inl e \<Rightarrow> Inl e
               | Inr d \<Rightarrow> Inr (st2, Some d))
            else Inr (st2, None))
      else Inr (st1, None))"

section \<open>The generator as it is called\<close>

text \<open>
  The call \<^verbatim>\<open>generateMockPythonCode(chartType, dataset, customization)\<close> with
  arguments that may be missing.  The chart descriptor is any value, so that its id may
  be absent or not a string; the dataset and the customization are undefined, null, or
  as the data model has them.  Each of the three destructuring declarations throws a
  TypeError on undefined and on null (the message is the engine's; V8's is used);
  with the three arguments given, no other step of the function throws.  The switch
  compares the id with each case label by strict equality.
\<close>

datatype 'a argument = Undefined | Null | Given 'a

definition destructure_error :: "string \<Rightarrow> string \<Rightarrow> string \<Rightarrow> js_error" where
  "destructure_error prop var what =
     TypeError (''Cannot destructure property '' @ single_quoted prop @ '' of ''
                @ single_quoted var @ '' as it is '' @ what @ ''.'')"

text \<open>\<^verbatim>\<open>const { library, id } = chartType\<close>: the id that the switch inspects.\<close>

fun chartType_id :: "jsval \<Rightarrow> js_error + jsval" where
  "chartType_id JUndefined = Inl (destructure_error ''library'' ''chartType'' ''undefined'')"
| "chartType_id JNull = Inl (destructure_error ''library'' ''chartType'' ''null'')"
| "chartType_id (JObj fs) = Inr (case map_of fs ''id'' of None \<Rightarrow> JUndefined | Some v \<Rightarrow> v)"
| "chartType_id _ = Inr JUndefined"

fun destructured :: "string \<Rightarrow> string \<Rightarrow> 'a argument \<Rightarrow> js_error + 'a" where
  "destructured prop var Undefined = Inl (destructure_error prop var ''undefined'')"
| "destructured prop var Null = Inl (destructure_error prop var ''null'')"
| "destructured prop var (Given x) = Inr x"

definition generateMockPythonCode_js ::
  "jsval \<Rightarrow> dataset argument \<Rightarrow> customization argument \<Rightarrow> js_error + string" where
  "generateMockPythonCode_js chartType dataset customization =
     (case chartType_id chartType of
        Inl e \<Rightarrow> Inl e
      | Inr ident \<Rightarrow>
         (case destructured ''rows'' ''dataset'' dataset of
            Inl e \<Rightarrow> Inl e
          | Inr ds \<Rightarrow>
             (case destructured ''colors'' ''customization'' customization of
                Inl e \<Rightarrow> Inl e
              | Inr cu \<Rightarrow>
                 Inr (let code = preamble ds cu
                      in if strict_equals_string ident ''matplotlib_line''
                           then code @ line_chart_body ds
                         else if strict_equals_string ident ''matplotlib_bar''
                           then code @ bar_chart_body ds cu
                         else if strict_equals_string ident ''seaborn_heatmap''
                           then code @ heatmap_body ds cu
                         else if strict_equals_string ident ''plotly_interactive''
                           then code @ plotly_body ds cu
                         else code @ default_body ds))))"

text \<open>A catalog entry as the object the component passes.\<close>

definition chart_value :: "chart_type \<Rightarrow> jsval" where
  "chart_value ch =
     JObj [(''id'', JStr (chart_id ch)), (''name'', JStr (chart_name ch)),
           (''library'', JStr (library ch)), (''description'', JStr (chart_description ch)),
           (''icon'', JStr (icon ch)), (''category'', JStr (category ch))]"

section \<open>Notions of the specification and example inputs\<close>

text \<open>
  The field \<open>k\<close> of a parsed input object, if it has one; a value that is not an
  object has no fields.
\<close>

definition field :: "jsval \<Rightarrow> string \<Rightarrow> jsval option" where
  "field v k = (case v of JObj fs \<Rightarrow> map_of fs k | _ \<Rightarrow> None)"

text \<open>A field that is missing, is not an array, or is an empty array.\<close>

definition unusable_field :: "jsval \<Rightarrow> string \<Rightarrow> bool" where
  "unusable_field v k =
     (case field v k of None \<Rightarrow> True | Some x \<Rightarrow> \<not> isArray x \<or> x = JArr [])"

text \<open>
  The inputs that are to be rejected: a text that cannot be parsed, and a parsed
  value whose rows or cols is missing, not an array, or empty.
\<close>

definition rejected_input :: "json_parser \<Rightarrow> string \<Rightarrow> bool" where
  "rejected_input JSON_parse s =
     (case JSON_parse s of
        Inl e \<Rightarrow> True
      | Inr v \<Rightarrow> unusable_field v ''rows'' \<or> unusable_field v ''cols'')"

text \<open>The name a successful validation is to give the dataset, after the defaulting.\<close>

definition defaulted_name :: "jsval \<Rightarrow> jsval" where
  "defaulted_name v =
     (case field v ''name'' of
        None \<Rightarrow> JStr ''Custom Dataset''
      | Some n \<Rightarrow> if truthy n then n else JStr ''Custom Dataset'')"

text \<open>The number a decimal numeral denotes: what reading the literal back gives.\<close>

definition read_digits :: "string \<Rightarrow> nat" where
  "read_digits s = foldl (\<lambda>a c. 10 * a + (of_char c - 48)) 0 s"

text \<open>The dataset of the end-to-end example, and a 3-category and a 5-category one.\<close>

definition example_dataset :: dataset where
  "example_dataset =
     \<lparr>ds_name = ''T'', rows = [''A'', ''B''], cols = [Decimal 1 0, Decimal 2 0],
      ds_values = None, ds_description = None\<rparr>"

definition three_categories :: dataset where
  "three_categories =
     \<lparr>ds_name = ''Three'', rows = [''A'', ''B'', ''C''],
      cols = [Decimal 1 0, Decimal 2 0, Decimal 3 0],
      ds_values = None, ds_description = None\<rparr>"

definition five_categories :: dataset where
  "five_categories =
     \<lparr>ds_name = ''Five'', rows = [''A'', ''B'', ''C'', ''D'', ''E''],
      cols = [Decimal 1 0, Decimal 2 0, Decimal 3 0, Decimal 4 0, Decimal 5 0],
      ds_values = None, ds_description = None\<rparr>"

definition nonexistent_chart :: chart_type where
  "nonexistent_chart =
     \<lparr>chart_id = ''nonexistent_chart'', chart_name = ''Nonexistent'', library = ''matplotlib'',
      chart_description = [], icon = [], category = ''basic''\<rparr>"

text \<open>
  Parsed inputs: one whose arrays differ in length, one with a name, one whose name is
  the empty string, one whose rows are empty.  \<open>JSON_parse_examples\<close> is not the
  parser: it is a finite table with the value of \<^verbatim>\<open>JSON.parse\<close> on the four example
  texts, and it answers every other text with a syntax error whose message stands for
  the engine's.  It is an input of the examples only; the theorems hold for every
  parser.
\<close>

definition parsed_mismatch :: jsval where
  "parsed_mismatch =
     JObj [(''rows'', JArr [JStr ''A'', JStr ''B'', JStr ''C'']),
           (''cols'', JArr [JNum (Decimal 1 0), JNum (Decimal 2 0)])]"

definition parsed_named :: jsval where
  "parsed_named =
     JObj [(''name'', JStr ''T''), (''rows'', JArr [JStr ''A'', JStr ''B'']),
           (''cols'', JArr [JNum (Decimal 1 0), JNum (Decimal 2 0)])]"

definition parsed_empty_name :: jsval where
  "parsed_empty_name =
     JObj [(''name'', JStr []), (''rows'', JArr [JStr ''A'']),
           (''cols'', JArr [JNum (Decimal 1 0)])]"

definition parsed_empty_rows :: jsval where
  "parsed_empty_rows = JObj [(''rows'', JArr []), (''cols'', JArr [JNum (Decimal 1 0)])]"

definition text_mismatch :: string where
  \<open>text_mismatch = ''{"rows":["A","B","C"],"cols":[1,2]}''\<close>

definition text_named :: string where
  \<open>text_named = ''{"name":"T","rows":["A","B"],"cols":[1,2]}''\<close>

definition text_empty_name :: string where
  \<open>text_empty_name = ''{"name":"","rows":["A"],"cols":[1]}''\<close>

definition text_empty_rows :: string where
  \<open>text_empty_rows = ''{"rows":[],"cols":[1]}''\<close>

definition JSON_parse_examples :: json_parser where
  "JSON_parse_examples s =
     (if s = text_mismatch then Inr parsed_mismatch
      else if s = text_named then Inr parsed_named
      else if s = text_empty_name then Inr parsed_empty_name
      else if s = text_empty_rows then Inr parsed_empty_rows
      else Inl (SyntaxError ''Unexpected token''))"

definition initial_state :: data_input_state where
  "initial_state = \<lparr>jsonInput = [], selectedExample = [], isValidJson = True\<rparr>"

section \<open>Facts about text inclusion\<close>

lemma str_includes_append_right: "str_includes b t \<Longrightarrow> str_includes (a @ b) t"
  unfolding str_includes_def sublist_def by (metis append.assoc)

lemma str_includes_append_left: "str_includes a t \<Longrightarrow> str_includes (a @ b) t"
  unfolding str_includes_def sublist_def by (metis append.assoc)

lemma str_includes_prefix: "prefix t s \<Longrightarrow> str_includes s t"
  unfolding str_includes_def by (rule prefix_imp_sublist)

lemma str_includes_part: "str_includes s t \<Longrightarrow> str_includes t u \<Longrightarrow> str_includes s u"
  unfolding str_includes_def by (rule sublist_order.order_trans)

section \<open>The generator: the preamble\<close>

lemma preamble_in_output:
  "str_includes (preamble ds cu) t \<Longrightarrow> str_includes (generateMockPythonCode ch ds cu) t"
  by (simp add: generateMockPythonCode_def Let_def str_includes_append_left)

lemma frame_in_preamble:
  "str_includes (frame_and_style ds cu) t \<Longrightarrow> str_includes (preamble ds cu) t"
  by (simp add: preamble_def Let_def str_includes_append_right)

lemma style_line_in_frame:
  "str_includes (frame_and_style ds cu)
     (''plt.style.use('' @ single_quoted (style_name (theme cu)) @ '')\<newline>'')"
  unfolding frame_and_style_def
  by ((rule str_includes_prefix, (simp; fail)) | rule str_includes_append_right)+

lemma figure_size_in_frame:
  "str_includes (frame_and_style ds cu)
     (''figure_size = ('' @ Number_toString (divide_by_100 (width (size_option cu)))
      @ '', '' @ Number_toString (divide_by_100 (height (size_option cu))) @ '')\<newline>'')"
  unfolding frame_and_style_def
  by ((rule str_includes_prefix, (simp; fail)) | rule str_includes_append_right)+

lemma Number_toString_12: "Number_toString (divide_by_100 1200) = ''12''"
  by (simp add: divide_by_100_def fraction_digits_def digits_of.simps)

lemma Number_toString_8: "Number_toString (divide_by_100 800) = ''8''"
  by (simp add: divide_by_100_def fraction_digits_def digits_of.simps)

lemma style_name_object: "style_name (JObj fs) = ''default''"
  by (simp add: style_name_def)

lemma template_name_object: "template_name (JObj fs) = ''plotly_white''"
  by (simp add: template_name_def)

lemma preamble_theme_object:
  "preamble ds (cu\<lparr>theme := JObj fs\<rparr>) = preamble ds (cu\<lparr>theme := JNull\<rparr>)"
  by (simp add: preamble_def frame_and_style_def style_name_def)

lemma plotly_body_theme_object:
  "plotly_body ds (cu\<lparr>theme := JObj fs\<rparr>) = plotly_body ds (cu\<lparr>theme := JNull\<rparr>)"
  by (simp add: plotly_body_def template_name_def)

lemma bodies_without_theme:
  "bar_chart_body ds (cu\<lparr>theme := th\<rparr>) = bar_chart_body ds cu"
  "heatmap_body ds (cu\<lparr>theme := th\<rparr>) = heatmap_body ds cu"
  by (simp_all add: bar_chart_body_def heatmap_body_def)

lemma template_line_in_plotly:
  "str_includes (plotly_body ds cu)
     (''    template='' @ single_quoted (template_name (theme cu)) @ ''\<newline>'')"
  unfolding plotly_body_def
  by ((rule str_includes_prefix, (simp; fail)) | rule str_includes_append_right)+

lemma body_in_output_plotly:
  "str_includes (plotly_body ds cu) t \<Longrightarrow>
   str_includes (generateMockPythonCode (ch\<lparr>chart_id := ''plotly_interactive''\<rparr>) ds cu) t"
  by (simp add: generateMockPythonCode_def Let_def str_includes_append_right)

text \<open>
  C1.  The style line and the layout template are to follow the selected theme:
  \<^verbatim>\<open>dark_background\<close> and \<^verbatim>\<open>plotly_dark\<close> for the dark theme.  The generator tests
  \<^verbatim>\<open>theme === 'dark'\<close>, which holds for the string \<^verbatim>\<open>'dark'\<close>; the customization
  holds the catalog entry of the theme, an object, for which the test fails.  For the
  dark theme of the catalog the output is that of the clean theme: the style line is
  \<^verbatim>\<open>plt.style.use('default')\<close> and the template is \<^verbatim>\<open>'plotly_white'\<close>.
\<close>

theorem dark_theme_entry_styled_as_default:
  "style_name (JStr ''dark'') = ''dark_background''
   \<and> template_name (JStr ''dark'') = ''plotly_dark''
   \<and> style_name (mock_themes ! 1) = ''default''
   \<and> template_name (mock_themes ! 1) = ''plotly_white''
   \<and> generateMockPythonCode ch ds (cu\<lparr>theme := mock_themes ! 1\<rparr>)
       = generateMockPythonCode ch ds (cu\<lparr>theme := mock_themes ! 0\<rparr>)
   \<and> str_includes (generateMockPythonCode ch ds (cu\<lparr>theme := mock_themes ! 1\<rparr>))
         ''plt.style.use('default')''
   \<and> str_includes
         (generateMockPythonCode (ch\<lparr>chart_id := ''plotly_interactive''\<rparr>) ds
            (cu\<lparr>theme := mock_themes ! 1\<rparr>))
         ''    template='plotly_white'\<newline>''"
proof -
  let ?dark = "cu\<lparr>theme := mock_themes ! 1\<rparr>"
  have same: "generateMockPythonCode ch ds ?dark
      = generateMockPythonCode ch ds (cu\<lparr>theme := mock_themes ! 0\<rparr>)"
    by (simp add: generateMockPythonCode_def Let_def mock_themes_def theme_entry_def
        preamble_theme_object plotly_body_theme_object bodies_without_theme)
  have dark_obj: "style_name (theme ?dark) = ''default''" "template_name (theme ?dark) = ''plotly_white''"
    by (simp_all add: mock_themes_def theme_entry_def style_name_object template_name_object)
  have "str_includes (frame_and_style ds ?dark) (''plt.style.use('' @ single_quoted ''default'' @ '')\<newline>'')"
    using style_line_in_frame [of ds ?dark] by (simp only: dark_obj)
  then have style: "str_includes (generateMockPythonCode ch ds ?dark) ''plt.style.use('default')''"
    by (intro preamble_in_output frame_in_preamble)
       (erule str_includes_part, simp add: str_includes_def single_quoted_def)
  have "str_includes (plotly_body ds ?dark) (''    template='' @ single_quoted ''plotly_white'' @ ''\<newline>'')"
    using template_line_in_plotly [of ds ?dark] by (simp only: dark_obj)
  then have templ: "str_includes
         (generateMockPythonCode (ch\<lparr>chart_id := ''plotly_interactive''\<rparr>) ds ?dark)
         ''    template='plotly_white'\<newline>''"
    by (intro body_in_output_plotly)
       (erule str_includes_part, simp add: str_includes_def single_quoted_def)
  show ?thesis
    using same style templ dark_obj
    by (simp add: style_name_def template_name_def)
qed

section \<open>The generator: the end-to-end example\<close>

lemmas generator_defs =
  generateMockPythonCode_def preamble_def data_setup_def values_binding_def
  frame_and_style_def has_values_def style_name_def template_name_def
  line_chart_body_def bar_chart_body_def heatmap_body_def plotly_body_def default_body_def
  single_quoted_def JSON_stringify_strings_def JSON_stringify_numbers_def QuoteJSONString_def
  escape_char_def hex_digit_def divide_by_100_def of_pixels_def fraction_digits_def
  element_at_def digits_of.simps

lemmas catalog_defs =
  initial_customization_def mockChartTypes_def mock_colors_def mock_themes_def
  mock_sizes_def theme_entry_def

lemma line_chart_in_output:
  "str_includes (line_chart_body ds) t \<Longrightarrow>
   str_includes (generateMockPythonCode (mockChartTypes ! 0) ds cu) t"
  by (simp add: generateMockPythonCode_def Let_def mockChartTypes_def str_includes_append_right)

lemma figsize_in_line_chart:
  "str_includes (line_chart_body ds) ''plt.figure(figsize=figure_size)\<newline>''"
  unfolding line_chart_body_def
  by ((rule str_includes_prefix, (simp; fail)) | rule str_includes_append_right)+

lemma title_in_line_chart:
  "str_includes (line_chart_body ds) (''plt.title('' @ single_quoted (ds_name ds))"
  unfolding line_chart_body_def
  by ((rule str_includes_prefix, (simp; fail)) | rule str_includes_append_right)+

text \<open>
  C2 as stated fails.  For the example dataset, the line chart, the clean theme and the
  medium size, the output does not have the binding \<^verbatim>\<open>figure_size = (12.0, 8.0)\<close>:
  \<^verbatim>\<open>1200/100\<close> is the number 12, which a template literal prints as \<^verbatim>\<open>12\<close>.
\<close>

theorem example_figure_size_counterexample:
  "theme initial_customization = mock_themes ! 0
   \<and> size_option initial_customization = mock_sizes ! 1
   \<and> \<not> str_includes
         (generateMockPythonCode (mockChartTypes ! 0) example_dataset initial_customization)
         ''figure_size = (12.0, 8.0)''"
  by (simp add: generator_defs catalog_defs example_dataset_def Let_def
      str_includes_def sublist_Cons_right)

text \<open>
  C2, amended.  For the dataset named T with rows A, B and cols 1, 2, the chart
  \<^verbatim>\<open>matplotlib_line\<close>, the clean theme and the medium size (1200 by 800), the output
  contains \<^verbatim>\<open>figsize=figure_size\<close>, the binding \<^verbatim>\<open>figure_size = (12, 8)\<close>, the style
  line \<^verbatim>\<open>plt.style.use('default')\<close> and the title \<^verbatim>\<open>'T'\<close>; the other fields of the
  customization do not matter.
\<close>

theorem example_end_to_end:
  "str_includes
     (generateMockPythonCode (mockChartTypes ! 0) example_dataset
        (cu\<lparr>theme := mock_themes ! 0, size_option := mock_sizes ! 1\<rparr>))
     ''figsize=figure_size''
   \<and> str_includes
     (generateMockPythonCode (mockChartTypes ! 0) example_dataset
        (cu\<lparr>theme := mock_themes ! 0, size_option := mock_sizes ! 1\<rparr>))
     ''figure_size = (12, 8)''
   \<and> str_includes
     (generateMockPythonCode (mockChartTypes ! 0) example_dataset
        (cu\<lparr>theme := mock_themes ! 0, size_option := mock_sizes ! 1\<rparr>))
     ''plt.style.use('default')''
   \<and> str_includes
     (generateMockPythonCode (mockChartTypes ! 0) example_dataset
        (cu\<lparr>theme := mock_themes ! 0, size_option := mock_sizes ! 1\<rparr>))
     (''plt.title('' @ single_quoted ''T'')"
proof -
  let ?cu = "cu\<lparr>theme := mock_themes ! 0, size_option := mock_sizes ! 1\<rparr>"
  let ?out = "generateMockPythonCode (mockChartTypes ! 0) example_dataset ?cu"
  have a: "str_includes ?out ''figsize=figure_size''"
    by (rule line_chart_in_output, rule str_includes_part [OF figsize_in_line_chart])
       (simp add: str_includes_def sublist_Cons_right)
  have "str_includes (frame_and_style example_dataset ?cu)
          (''figure_size = ('' @ ''12'' @ '', '' @ ''8'' @ '')\<newline>'')"
    using figure_size_in_frame [of example_dataset ?cu]
    by (simp add: mock_sizes_def Number_toString_12 Number_toString_8)
  then have b: "str_includes ?out ''figure_size = (12, 8)''"
    by (intro preamble_in_output frame_in_preamble)
       (erule str_includes_part, simp add: str_includes_def)
  have "str_includes (frame_and_style example_dataset ?cu)
          (''plt.style.use('' @ single_quoted ''default'' @ '')\<newline>'')"
    using style_line_in_frame [of example_dataset ?cu]
    by (simp add: mock_themes_def theme_entry_def style_name_object)
  then have c: "str_includes ?out ''plt.style.use('default')''"
    by (intro preamble_in_output frame_in_preamble)
       (erule str_includes_part, simp add: str_includes_def single_quoted_def)
  have d: "str_includes ?out (''plt.title('' @ single_quoted ''T'')"
    using title_in_line_chart [of example_dataset]
    by (intro line_chart_in_output) (simp add: example_dataset_def)
  from a b c d show ?thesis by simp
qed

section \<open>The generator: the bar chart\<close>

lemma bar_chart_in_output:
  "str_includes (bar_chart_body ds cu) t \<Longrightarrow>
   str_includes (generateMockPythonCode (ch\<lparr>chart_id := ''matplotlib_bar''\<rparr>) ds cu) t"
  by (simp add: generateMockPythonCode_def Let_def str_includes_append_right)

text \<open>
  C3 as stated fails.  For a 3-category dataset and the bar chart, the output has no
  tick rotation of 0: the text \<^verbatim>\<open>rotation=0\<close> does not occur in it, and
  \<^verbatim>\<open>rotation=45\<close> does.
\<close>

theorem three_categories_rotation_counterexample:
  "length (rows three_categories) = 3
   \<and> str_includes
       (generateMockPythonCode (mockChartTypes ! 1) three_categories initial_customization)
       ''rotation=45''
   \<and> \<not> str_includes
       (generateMockPythonCode (mockChartTypes ! 1) three_categories initial_customization)
       ''rotation=0''"
  by (simp add: generator_defs catalog_defs three_categories_def Let_def
      str_includes_def sublist_Cons_right)

lemma data_setup_in_preamble:
  "str_includes (data_setup ds) t \<Longrightarrow> str_includes (preamble ds cu) t"
  by (simp add: preamble_def Let_def str_includes_append_left)

lemma rows_binding_in_data_setup:
  "str_includes (data_setup ds) (''rows = '' @ JSON_stringify_strings (rows ds) @ ''\<newline>'')"
  unfolding data_setup_def
  by ((rule str_includes_prefix, (simp; fail)) | rule str_includes_append_right)+

lemma xticks_line_in_bar_chart:
  "str_includes (bar_chart_body ds cu)
     ''plt.xticks(rotation=45 if len(rows) > 4 else 0)\<newline>''"
  unfolding bar_chart_body_def
  by ((rule str_includes_prefix, (simp; fail)) | rule str_includes_append_right)+

lemma occurs_before:
  assumes "str_includes a t" and "str_includes b u"
  shows "\<exists>p q r. a @ b = p @ t @ q @ u @ r"
proof -
  from assms(1) obtain p q1 where a: "a = p @ t @ q1"
    unfolding str_includes_def sublist_def by blast
  from assms(2) obtain q2 r where b: "b = q2 @ u @ r"
    unfolding str_includes_def sublist_def by blast
  have "a @ b = p @ t @ (q1 @ q2) @ u @ r"
    by (simp add: a b)
  then show ?thesis by blast
qed

lemma bar_chart_output:
  "generateMockPythonCode (ch\<lparr>chart_id := ''matplotlib_bar''\<rparr>) ds cu
     = preamble ds cu @ bar_chart_body ds cu"
  by (simp add: generateMockPythonCode_def)

lemma rows_literals:
  \<open>JSON_stringify_strings (rows three_categories) = ''["A","B","C"]''\<close>
  \<open>JSON_stringify_strings (rows five_categories) = ''["A","B","C","D","E"]''\<close>
  by (simp_all add: three_categories_def five_categories_def JSON_stringify_strings_def
      QuoteJSONString_def escape_char_def)

text \<open>
  C3, amended.  For chart id \<^verbatim>\<open>matplotlib_bar\<close> the output contains, for every dataset
  and customization, the same line
  \<^verbatim>\<open>plt.xticks(rotation=45 if len(rows) > 4 else 0)\<close>: the generator does not count
  the rows; the rotation is chosen by the generated script when it runs, from the rows
  it binds.  The script binds \<^verbatim>\<open>rows\<close> to the JSON text of the dataset's rows, in a
  line that stands before the tick line; for the 3-category input that is
  \<^verbatim>\<open>rows = ["A","B","C"]\<close> and for the 5-category input
  \<^verbatim>\<open>rows = ["A","B","C","D","E"]\<close>.  The bar chart body itself does not depend on
  the rows.
\<close>

theorem bar_chart_rotation_is_deferred:
  \<open>str_includes (generateMockPythonCode (ch\<lparr>chart_id := ''matplotlib_bar''\<rparr>) ds cu)
     ''plt.xticks(rotation=45 if len(rows) > 4 else 0)\<newline>''
   \<and> str_includes (generateMockPythonCode (ch\<lparr>chart_id := ''matplotlib_bar''\<rparr>) ds cu)
       (''rows = '' @ JSON_stringify_strings (rows ds) @ ''\<newline>'')
   \<and> (\<exists>p q r. generateMockPythonCode (ch\<lparr>chart_id := ''matplotlib_bar''\<rparr>) ds cu
          = p @ (''rows = '' @ JSON_stringify_strings (rows ds) @ ''\<newline>'') @ q
              @ ''plt.xticks(rotation=45 if len(rows) > 4 else 0)\<newline>'' @ r)
   \<and> bar_chart_body (ds\<lparr>rows := r, cols := c\<rparr>) cu = bar_chart_body ds cu
   \<and> chart_id (mockChartTypes ! 1) = ''matplotlib_bar''
   \<and> str_includes
       (generateMockPythonCode (mockChartTypes ! 1) three_categories cu)
       ''plt.xticks(rotation=45 if len(rows) > 4 else 0)\<newline>''
   \<and> str_includes
       (generateMockPythonCode (mockChartTypes ! 1) three_categories cu)
       ''rows = ["A","B","C"]\<newline>''
   \<and> str_includes
       (generateMockPythonCode (mockChartTypes ! 1) five_categories cu)
       ''plt.xticks(rotation=45 if len(rows) > 4 else 0)\<newline>''
   \<and> str_includes
       (generateMockPythonCode (mockChartTypes ! 1) five_categories cu)
       ''rows = ["A","B","C","D","E"]\<newline>''\<close>
proof -
  have line: "str_includes (generateMockPythonCode (c\<lparr>chart_id := ''matplotlib_bar''\<rparr>) d cu)
      ''plt.xticks(rotation=45 if len(rows) > 4 else 0)\<newline>''" for c d
    by (rule bar_chart_in_output [OF xticks_line_in_bar_chart])
  have binding: "str_includes (generateMockPythonCode (c\<lparr>chart_id := ''matplotlib_bar''\<rparr>) d cu)
      (''rows = '' @ JSON_stringify_strings (rows d) @ ''\<newline>'')" for c d
    by (intro preamble_in_output data_setup_in_preamble rows_binding_in_data_setup)
  have order: "\<exists>p q r. generateMockPythonCode (ch\<lparr>chart_id := ''matplotlib_bar''\<rparr>) ds cu
          = p @ (''rows = '' @ JSON_stringify_strings (rows ds) @ ''\<newline>'') @ q
              @ ''plt.xticks(rotation=45 if len(rows) > 4 else 0)\<newline>'' @ r"
    unfolding bar_chart_output
    by (rule occurs_before
        [OF data_setup_in_preamble [OF rows_binding_in_data_setup] xticks_line_in_bar_chart])
  have bar: "mockChartTypes ! 1 = (mockChartTypes ! 1)\<lparr>chart_id := ''matplotlib_bar''\<rparr>"
    by (simp add: mockChartTypes_def)
  have cat_line: "str_includes (generateMockPythonCode (mockChartTypes ! 1) d cu)
      ''plt.xticks(rotation=45 if len(rows) > 4 else 0)\<newline>''" for d
    using line [of "mockChartTypes ! 1" d] bar by simp
  have cat_binding: "str_includes (generateMockPythonCode (mockChartTypes ! 1) d cu)
      (''rows = '' @ JSON_stringify_strings (rows d) @ ''\<newline>'')" for d
    using binding [of "mockChartTypes ! 1" d] bar by simp
  have three: \<open>str_includes (generateMockPythonCode (mockChartTypes ! 1) three_categories cu)
      ''rows = ["A","B","C"]\<newline>''\<close>
    using cat_binding [of three_categories] by (simp add: rows_literals)
  have five: \<open>str_includes (generateMockPythonCode (mockChartTypes ! 1) five_categories cu)
      ''rows = ["A","B","C","D","E"]\<newline>''\<close>
    using cat_binding [of five_categories] by (simp add: rows_literals)
  have same: "bar_chart_body (ds\<lparr>rows := r, cols := c\<rparr>) cu = bar_chart_body ds cu"
    by (simp add: bar_chart_body_def)
  have ident: "chart_id (mockChartTypes ! 1) = ''matplotlib_bar''"
    by (simp add: mockChartTypes_def)
  from line [of ch ds] binding [of ch ds] order same ident cat_line three five
  show ?thesis by blast
qed

section \<open>The generator: dispatch and sizes\<close>

text \<open>
  C4.  The output does not depend on \<open>customWidth\<close> and \<open>customHeight\<close>: for every
  chart, dataset and customization, replacing the two fields, as the sliders of the
  custom size do, leaves the output unchanged, also when the selected size is the
  custom entry of the catalog.
\<close>

theorem custom_width_height_ignored:
  "generateMockPythonCode ch ds (cu\<lparr>customWidth := w, customHeight := h\<rparr>)
     = generateMockPythonCode ch ds cu
   \<and> generateMockPythonCode ch ds (updateCustomization_customWidth w cu)
     = generateMockPythonCode ch ds cu
   \<and> generateMockPythonCode ch ds (updateCustomization_customHeight h cu)
     = generateMockPythonCode ch ds cu
   \<and> sz_value (mock_sizes ! 3) = ''custom''
   \<and> generateMockPythonCode ch ds
        (updateCustomization_customHeight h
           (updateCustomization_customWidth w (cu\<lparr>size_option := mock_sizes ! 3\<rparr>)))
     = generateMockPythonCode ch ds (cu\<lparr>size_option := mock_sizes ! 3\<rparr>)"
proof -
  have pre: "preamble ds (c\<lparr>customWidth := w\<rparr>) = preamble ds c"
            "preamble ds (c\<lparr>customHeight := h\<rparr>) = preamble ds c" for c
    by (simp_all add: preamble_def frame_and_style_def)
  have bodies:
    "bar_chart_body ds (c\<lparr>customWidth := w\<rparr>) = bar_chart_body ds c"
    "bar_chart_body ds (c\<lparr>customHeight := h\<rparr>) = bar_chart_body ds c"
    "heatmap_body ds (c\<lparr>customWidth := w\<rparr>) = heatmap_body ds c"
    "heatmap_body ds (c\<lparr>customHeight := h\<rparr>) = heatmap_body ds c"
    "plotly_body ds (c\<lparr>customWidth := w\<rparr>) = plotly_body ds c"
    "plotly_body ds (c\<lparr>customHeight := h\<rparr>) = plotly_body ds c" for c
    by (simp_all add: bar_chart_body_def heatmap_body_def plotly_body_def)
  have gen:
    "generateMockPythonCode ch ds (c\<lparr>customWidth := w\<rparr>) = generateMockPythonCode ch ds c"
    "generateMockPythonCode ch ds (c\<lparr>customHeight := h\<rparr>) = generateMockPythonCode ch ds c" for c
    by (simp_all add: generateMockPythonCode_def Let_def pre bodies)
  have "sz_value (mock_sizes ! 3) = ''custom''"
    by (simp add: mock_sizes_def)
  then show ?thesis
    by (simp add: gen updateCustomization_customWidth_def updateCustomization_customHeight_def)
qed

lemma strict_equals_string_iff: "strict_equals_string v s \<longleftrightarrow> v = JStr s"
  by (cases v) auto

lemma chart_value_id: "chartType_id (chart_value ch) = Inr (JStr (chart_id ch))"
  by (simp add: chart_value_def)

lemma typed_generator_agrees:
  "generateMockPythonCode_js (chart_value ch) (Given ds) (Given cu)
     = Inr (generateMockPythonCode ch ds cu)"
  by (simp add: generateMockPythonCode_js_def generateMockPythonCode_def chart_value_id Let_def)

lemma preamble_text:
  \<open>preamble ds cu =
       ''import matplotlib.pyplot as plt\<newline>''
     @ ''import seaborn as sns\<newline>''
     @ ''import plotly.express as px\<newline>''
     @ ''import pandas as pd\<newline>''
     @ ''import numpy as np\<newline>''
     @ ''\<newline>''
     @ ''# Data setup\<newline>''
     @ ''rows = '' @ JSON_stringify_strings (rows ds) @ ''\<newline>''
     @ ''cols = '' @ JSON_stringify_numbers (cols ds)
     @ (case ds_values ds of
          Some (v # vs) \<Rightarrow> ''\<newline>values = '' @ JSON_stringify_numbers (v # vs)
        | _ \<Rightarrow> [])
     @ ''\<newline>''
     @ ''\<newline>''
     @ ''# Create DataFrame for easier manipulation\<newline>''
     @ ''df = pd.DataFrame({\<newline>''
     @ ''    'categories': rows,\<newline>''
     @ ''    'values': cols''
     @ (case ds_values ds of
          Some (v # vs) \<Rightarrow> '',\<newline>    'weights': values''
        | _ \<Rightarrow> [])
     @ ''\<newline>''
     @ ''})\<newline>''
     @ ''\<newline>''
     @ ''# Set up the plot style\<newline>''
     @ ''plt.style.use(''
     @ single_quoted (if theme cu = JStr ''dark'' then ''dark_background'' else ''default'')
     @ '')\<newline>''
     @ ''figure_size = ('' @ Number_toString (divide_by_100 (width (size_option cu)))
     @ '', '' @ Number_toString (divide_by_100 (height (size_option cu)))
     @ '')\<newline>''
     @ ''\<newline>''\<close>
  by (simp add: preamble_def data_setup_def values_binding_def frame_and_style_def
      has_values_def style_name_def strict_equals_string_iff Let_def
      split: option.splits list.splits)

text \<open>
  C7.  With the chart descriptor, the dataset and the customization given, the call
  raises no error, whatever the id of the descriptor is: a string that is none of the
  four case labels, a value that is not a string, or no id at all.  It then returns
  the script written out below: the imports, the bindings of rows and cols (and of
  values, when the dataset has some), the data frame, the style line and the figure
  size, followed by the default body, a plain line plot titled with the dataset's name.
  For a descriptor of the catalog's type this is the result of the typed generator.
  (A call whose descriptor, dataset or customization is undefined or null throws the
  TypeError of its destructuring; such a call is not one the claim is about.)
\<close>

theorem unrecognized_id_gives_default_body:
  assumes "chartType_id chartType = Inr ident"
    and "ident \<notin> {JStr ''matplotlib_line'', JStr ''matplotlib_bar'', JStr ''seaborn_heatmap'',
                     JStr ''plotly_interactive''}"
  shows \<open>generateMockPythonCode_js chartType (Given ds) (Given cu) =
      Inr (''import matplotlib.pyplot as plt\<newline>''
         @ ''import seaborn as sns\<newline>''
         @ ''import plotly.express as px\<newline>''
         @ ''import pandas as pd\<newline>''
         @ ''import numpy as np\<newline>''
         @ ''\<newline>''
         @ ''# Data setup\<newline>''
         @ ''rows = '' @ JSON_stringify_strings (rows ds) @ ''\<newline>''
         @ ''cols = '' @ JSON_stringify_numbers (cols ds)
         @ (case ds_values ds of
              Some (v # vs) \<Rightarrow> ''\<newline>values = '' @ JSON_stringify_numbers (v # vs)
            | _ \<Rightarrow> [])
         @ ''\<newline>''
         @ ''\<newline>''
         @ ''# Create DataFrame for easier manipulation\<newline>''
         @ ''df = pd.DataFrame({\<newline>''
         @ ''    'categories': rows,\<newline>''
         @ ''    'values': cols''
         @ (case ds_values ds of
              Some (v # vs) \<Rightarrow> '',\<newline>    'weights': values''
            | _ \<Rightarrow> [])
         @ ''\<newline>''
         @ ''})\<newline>''
         @ ''\<newline>''
         @ ''# Set up the plot style\<newline>''
         @ ''plt.style.use(''
         @ single_quoted (if theme cu = JStr ''dark'' then ''dark_background'' else ''default'')
         @ '')\<newline>''
         @ ''figure_size = ('' @ Number_toString (divide_by_100 (width (size_option cu)))
         @ '', '' @ Number_toString (divide_by_100 (height (size_option cu)))
         @ '')\<newline>''
         @ ''\<newline>''
         @ ''# Basic visualization\<newline>''
         @ ''plt.figure(figsize=figure_size)\<newline>''
         @ ''plt.plot(rows, cols)\<newline>''
         @ ''plt.title('' @ single_quoted (ds_name ds) @ '')\<newline>''
         @ ''plt.savefig('visualization.png')\<newline>''
         @ ''plt.show()'')
    \<and> generateMockPythonCode_js chartType (Given ds) (Given cu)
        = Inr (preamble ds cu @ default_body ds)
    \<and> (\<forall>ch. chartType = chart_value ch \<longrightarrow>
           generateMockPythonCode_js chartType (Given ds) (Given cu)
             = Inr (generateMockPythonCode ch ds cu))\<close>
proof -
  from assms(2) have no_case:
    "\<not> strict_equals_string ident ''matplotlib_line''"
    "\<not> strict_equals_string ident ''matplotlib_bar''"
    "\<not> strict_equals_string ident ''seaborn_heatmap''"
    "\<not> strict_equals_string ident ''plotly_interactive''"
    by (auto simp: strict_equals_string_iff)
  have call: "generateMockPythonCode_js chartType (Given ds) (Given cu)
        = Inr (preamble ds cu @ default_body ds)"
    by (simp add: generateMockPythonCode_js_def assms(1) no_case)
  have typed: "\<forall>ch. chartType = chart_value ch \<longrightarrow>
           generateMockPythonCode_js chartType (Given ds) (Given cu)
             = Inr (generateMockPythonCode ch ds cu)"
    by (simp add: typed_generator_agrees)
  have body: "default_body ds =
           ''# Basic visualization\<newline>''
         @ ''plt.figure(figsize=figure_size)\<newline>''
         @ ''plt.plot(rows, cols)\<newline>''
         @ ''plt.title('' @ single_quoted (ds_name ds) @ '')\<newline>''
         @ ''plt.savefig('visualization.png')\<newline>''
         @ ''plt.show()''"
    by (simp add: default_body_def)
  show ?thesis
    unfolding call
    by (intro conjI refl typed [unfolded call]) (simp only: preamble_text body append_assoc)
qed

theorem unrecognized_id_gives_default_body_witness:
  \<open>chartType_id (chart_value nonexistent_chart) = Inr (JStr ''nonexistent_chart'')
   \<and> generateMockPythonCode_js (chart_value nonexistent_chart)
        (Given example_dataset) (Given initial_customization) =
      Inr (''import matplotlib.pyplot as plt\<newline>''
         @ ''import seaborn as sns\<newline>''
         @ ''import plotly.express as px\<newline>''
         @ ''import pandas as pd\<newline>''
         @ ''import numpy as np\<newline>''
         @ ''\<newline>''
         @ ''# Data setup\<newline>''
         @ ''rows = ["A","B"]\<newline>''
         @ ''cols = [1,2]\<newline>''
         @ ''\<newline>''
         @ ''# Create DataFrame for easier manipulation\<newline>''
         @ ''df = pd.DataFrame({\<newline>''
         @ ''    'categories': rows,\<newline>''
         @ ''    'values': cols\<newline>''
         @ ''})\<newline>''
         @ ''\<newline>''
         @ ''# Set up the plot style\<newline>''
         @ ''plt.style.use('default')\<newline>''
         @ ''figure_size = (12, 8)\<newline>''
         @ ''\<newline>''
         @ ''# Basic visualization\<newline>''
         @ ''plt.figure(figsize=figure_size)\<newline>''
         @ ''plt.plot(rows, cols)\<newline>''
         @ ''plt.title('T')\<newline>''
         @ ''plt.savefig('visualization.png')\<newline>''
         @ ''plt.show()'')
   \<and> generateMockPythonCode nonexistent_chart example_dataset initial_customization
       = preamble example_dataset initial_customization @ default_body example_dataset
   \<and> generateMockPythonCode_js (JObj []) (Given example_dataset) (Given initial_customization)
       = Inr (preamble example_dataset initial_customization @ default_body example_dataset)
   \<and> generateMockPythonCode_js (JObj [(''id'', JNum (Decimal 5 0))])
        (Given example_dataset) (Given initial_customization)
       = Inr (preamble example_dataset initial_customization @ default_body example_dataset)\<close>
proof -
  have ident: "chartType_id (chart_value nonexistent_chart) = Inr (JStr ''nonexistent_chart'')"
    by (simp add: chart_value_id nonexistent_chart_def)
  have other: "JStr ''nonexistent_chart'' \<notin> {JStr ''matplotlib_line'', JStr ''matplotlib_bar'',
      JStr ''seaborn_heatmap'', JStr ''plotly_interactive''}"
    by simp
  have vals: "JSON_stringify_strings (rows example_dataset) = [CHR ''['', CHR 0x22, CHR ''A'',
        CHR 0x22, CHR '','', CHR 0x22, CHR ''B'', CHR 0x22, CHR '']'']"
      "JSON_stringify_numbers (cols example_dataset) = ''[1,2]''"
      "ds_values example_dataset = None" "ds_name example_dataset = ''T''"
      "theme initial_customization \<noteq> JStr ''dark''"
      "Number_toString (divide_by_100 (width (size_option initial_customization))) = ''12''"
      "Number_toString (divide_by_100 (height (size_option initial_customization))) = ''8''"
    by (simp_all add: example_dataset_def JSON_stringify_strings_def JSON_stringify_numbers_def
        QuoteJSONString_def escape_char_def initial_customization_def mock_sizes_def
        mock_themes_def theme_entry_def Number_toString_12 Number_toString_8
        fraction_digits_def digits_of.simps)
  have typed: "generateMockPythonCode nonexistent_chart example_dataset initial_customization
       = preamble example_dataset initial_customization @ default_body example_dataset"
    by (simp add: generateMockPythonCode_def nonexistent_chart_def)
  have malformed:
    "generateMockPythonCode_js (JObj []) (Given example_dataset) (Given initial_customization)
       = Inr (preamble example_dataset initial_customization @ default_body example_dataset)"
    "generateMockPythonCode_js (JObj [(''id'', JNum (Decimal 5 0))])
        (Given example_dataset) (Given initial_customization)
       = Inr (preamble example_dataset initial_customization @ default_body example_dataset)"
    by (simp_all add: generateMockPythonCode_js_def)
  from unrecognized_id_gives_default_body
         [of "chart_value nonexistent_chart" "JStr ''nonexistent_chart''"
             example_dataset initial_customization, OF ident other]
    ident typed malformed
  show ?thesis
    by (simp add: vals single_quoted_def)
qed

lemma digit_char_value:
  assumes "n < 10"
  shows "(of_char (''0123456789'' ! n) :: nat) = 48 + n"
proof -
  have "list_all (\<lambda>k. (of_char (''0123456789'' ! k) :: nat) = 48 + k) [0..<10]"
    by (simp add: upt_rec)
  with assms show ?thesis
    by (simp add: list_all_iff)
qed

lemma read_digits_snoc: "read_digits (s @ [c]) = 10 * read_digits s + (of_char c - 48)"
  by (simp add: read_digits_def)

lemma read_digits_of: "read_digits (digits_of n) = n"
proof (induction n rule: digits_of.induct)
  case (1 n)
  show ?case
  proof (cases "n < 10")
    case True
    then show ?thesis
      by (subst digits_of.simps) (simp add: read_digits_def digit_char_value)
  next
    case False
    have "read_digits (digits_of n)
        = read_digits (digits_of (n div 10) @ [''0123456789'' ! (n mod 10)])"
      using False by (subst digits_of.simps) simp
    also have "\<dots> = 10 * (n div 10) + n mod 10"
      using 1 [OF False] by (simp only: read_digits_snoc) (simp add: digit_char_value)
    finally show ?thesis by simp
  qed
qed

lemma pixels_numeral: "Number_toString (of_pixels (int n)) = digits_of n"
  by (simp add: of_pixels_def fraction_digits_def)

text \<open>
  C8.  For chart id \<^verbatim>\<open>plotly_interactive\<close> the output contains the two layout lines
  \<^verbatim>\<open>width=\<close> and \<^verbatim>\<open>height=\<close> followed by the decimal numerals of
  \<open>customization.size.width\<close> and \<open>customization.size.height\<close>, each closed by a comma
  and the end of the line.
\<close>

theorem plotly_width_height_literals:
  "str_includes (generateMockPythonCode (ch\<lparr>chart_id := ''plotly_interactive''\<rparr>) ds cu)
     (''    width='' @ Number_toString (of_pixels (width (size_option cu))) @ '',\<newline>''
    @ ''    height='' @ Number_toString (of_pixels (height (size_option cu))) @ '',\<newline>'')
   \<and> chart_id (mockChartTypes ! 5) = ''plotly_interactive''
   \<and> str_includes (generateMockPythonCode (mockChartTypes ! 5) ds cu)
     (''    width='' @ Number_toString (of_pixels (width (size_option cu))) @ '',\<newline>''
    @ ''    height='' @ Number_toString (of_pixels (height (size_option cu))) @ '',\<newline>'')
   \<and> read_digits (Number_toString (of_pixels (int n))) = n
   \<and> Number_toString (of_pixels 1200) = ''1200''
   \<and> Number_toString (of_pixels 800) = ''800''"
proof -
  have body: "str_includes (plotly_body ds cu)
     (''    width='' @ Number_toString (of_pixels (width (size_option cu))) @ '',\<newline>''
    @ ''    height='' @ Number_toString (of_pixels (height (size_option cu))) @ '',\<newline>'')"
    unfolding plotly_body_def
    by ((rule str_includes_prefix, (simp; fail)) | rule str_includes_append_right)+
  have cat: "mockChartTypes ! 5 = (mockChartTypes ! 5)\<lparr>chart_id := ''plotly_interactive''\<rparr>"
    by (simp add: mockChartTypes_def)
  have "str_includes
     (generateMockPythonCode ((mockChartTypes ! 5)\<lparr>chart_id := ''plotly_interactive''\<rparr>) ds cu)
     (''    width='' @ Number_toString (of_pixels (width (size_option cu))) @ '',\<newline>''
    @ ''    height='' @ Number_toString (of_pixels (height (size_option cu))) @ '',\<newline>'')"
    by (rule body_in_output_plotly [OF body])
  with cat have entry: "str_includes (generateMockPythonCode (mockChartTypes ! 5) ds cu)
     (''    width='' @ Number_toString (of_pixels (width (size_option cu))) @ '',\<newline>''
    @ ''    height='' @ Number_toString (of_pixels (height (size_option cu))) @ '',\<newline>'')"
    by simp
  have ident: "chart_id (mockChartTypes ! 5) = ''plotly_interactive''"
    by (simp add: mockChartTypes_def)
  have nums: "Number_toString (of_pixels 1200) = ''1200''" "Number_toString (of_pixels 800) = ''800''"
    by (simp_all add: of_pixels_def fraction_digits_def digits_of.simps)
  have reread: "read_digits (Number_toString (of_pixels (int n))) = n"
    by (simp add: pixels_numeral read_digits_of)
  from body_in_output_plotly [OF body] entry ident nums reread show ?thesis by simp
qed

text \<open>
  C9.  The catalog entries \<^verbatim>\<open>matplotlib_scatter\<close> and \<^verbatim>\<open>seaborn_violin\<close> have no case
  in the switch: for every dataset and customization their output is the preamble
  followed by the default body, which is a plain line plot titled with the dataset's
  name, the same for every customization.
\<close>

theorem scatter_and_violin_give_default_body:
  "chart_id (mockChartTypes ! 2) = ''matplotlib_scatter''
   \<and> chart_id (mockChartTypes ! 4) = ''seaborn_violin''
   \<and> generateMockPythonCode (mockChartTypes ! 2) ds cu = preamble ds cu @ default_body ds
   \<and> generateMockPythonCode (mockChartTypes ! 4) ds cu = preamble ds cu @ default_body ds
   \<and> generateMockPythonCode (ch\<lparr>chart_id := ''matplotlib_scatter''\<rparr>) ds cu
       = preamble ds cu @ default_body ds
   \<and> generateMockPythonCode (ch\<lparr>chart_id := ''seaborn_violin''\<rparr>) ds cu
       = preamble ds cu @ default_body ds
   \<and> default_body ds =
       ''# Basic visualization\<newline>''
     @ ''plt.figure(figsize=figure_size)\<newline>''
     @ ''plt.plot(rows, cols)\<newline>''
     @ ''plt.title('' @ single_quoted (ds_name ds) @ '')\<newline>''
     @ ''plt.savefig('visualization.png')\<newline>''
     @ ''plt.show()''"
  by (simp add: generateMockPythonCode_def mockChartTypes_def default_body_def)

section \<open>The validator\<close>

lemma field_get_property: "field v k = Some x \<Longrightarrow> get_property v k = Inr x"
  by (cases v) (auto simp: field_def)

lemma map_of_set_property:
  "map_of (set_property fs k v) k' = (if k' = k then Some v else map_of fs k')"
  by (induction fs) auto

lemma try_validate_accepts:
  assumes "JSON_parse s = Inr parsed"
    and "field parsed ''rows'' = Some (JArr rs)" and "rs \<noteq> []"
    and "field parsed ''cols'' = Some (JArr cs)" and "cs \<noteq> []"
  shows "try_validate JSON_parse s = Inr parsed"
  using assms by (simp add: try_validate_def field_get_property)

text \<open>What a passed validation says about the text: the converse of the above.\<close>

lemma try_validate_Inr:
  assumes "try_validate JSON_parse s = Inr v"
  shows "JSON_parse s = Inr v \<and>
         (\<exists>fs rs cs. v = JObj fs \<and> map_of fs ''rows'' = Some (JArr rs) \<and> rs \<noteq> []
            \<and> map_of fs ''cols'' = Some (JArr cs) \<and> cs \<noteq> [])"
proof -
  from assms obtain parsed where p: "JSON_parse s = Inr parsed"
    by (auto simp: try_validate_def split: sum.splits)
  from assms p obtain r where r: "get_property parsed ''rows'' = Inr r" "truthy r"
    by (auto simp: try_validate_def split: sum.splits if_splits)
  from assms p r obtain c where c: "get_property parsed ''cols'' = Inr c" "truthy c"
    by (auto simp: try_validate_def split: sum.splits if_splits)
  from assms p r c have ok: "isArray r" "isArray c" "array_length r \<noteq> 0"
      "array_length c \<noteq> 0" "v = parsed"
    by (auto simp: try_validate_def split: if_splits)
  from ok obtain rs cs where rc: "r = JArr rs" "c = JArr cs" "rs \<noteq> []" "cs \<noteq> []"
    by (cases r; cases c) auto
  from r rc obtain fs where fs: "parsed = JObj fs"
    by (cases parsed) auto
  with r c rc have "map_of fs ''rows'' = Some (JArr rs)" "map_of fs ''cols'' = Some (JArr cs)"
    by (auto split: option.splits)
  with p ok fs rc show ?thesis by auto
qed

lemma rejected_try_validate:
  assumes "rejected_input JSON_parse s"
  shows "\<exists>e. try_validate JSON_parse s = Inl e"
proof (cases "try_validate JSON_parse s")
  case (Inl e)
  then show ?thesis by simp
next
  case (Inr v)
  from try_validate_Inr [OF Inr] assms show ?thesis
    by (auto simp: rejected_input_def unusable_field_def field_def)
qed

lemma try_validate_reason:
  assumes "try_validate JSON_parse s = Inl e" and "JSON_parse s = Inr v"
  shows "message e \<in> set [''JSON must contain \"rows\" and \"cols\" arrays'',
            ''\"rows\" and \"cols\" must be arrays'', ''Arrays cannot be empty'',
            ''Cannot read properties of null (reading 'rows')'',
            ''Cannot read properties of undefined (reading 'rows')'']"
  using assms
  by (cases v) (auto simp: try_validate_def single_quoted_def split: sum.splits if_splits)

text \<open>
  C5.  When the text parses to an object whose rows and cols fields are both non-empty
  arrays, of equal length or not, the validation succeeds and returns the parsed value
  itself; its rows and cols, and those of the dataset handed on, are the input arrays.
\<close>

theorem validate_accepts_nonempty_arrays:
  assumes "JSON_parse s = Inr parsed"
    and "field parsed ''rows'' = Some (JArr rs)" and "rs \<noteq> []"
    and "field parsed ''cols'' = Some (JArr cs)" and "cs \<noteq> []"
  shows "validateAndParseJson JSON_parse s = \<lparr>isValid = True, data = parsed, error = None\<rparr>
       \<and> field (data (validateAndParseJson JSON_parse s)) ''rows'' = Some (JArr rs)
       \<and> field (data (validateAndParseJson JSON_parse s)) ''cols'' = Some (JArr cs)
       \<and> (\<exists>d. with_default_name parsed = Inr d
              \<and> field d ''rows'' = Some (JArr rs) \<and> field d ''cols'' = Some (JArr cs))"
proof -
  have v: "validateAndParseJson JSON_parse s = \<lparr>isValid = True, data = parsed, error = None\<rparr>"
    using try_validate_accepts [of JSON_parse s parsed rs cs] assms
    by (simp add: validateAndParseJson_def)
  from assms(2) obtain fs where fs: "parsed = JObj fs"
    by (cases parsed) (auto simp: field_def)
  have "\<exists>d. with_default_name parsed = Inr d
          \<and> field d ''rows'' = Some (JArr rs) \<and> field d ''cols'' = Some (JArr cs)"
    using assms(2,4) by (simp add: fs with_default_name_def field_def map_of_set_property)
  with v assms(2,4) show ?thesis by simp
qed

theorem validate_accepts_nonempty_arrays_witness:
  "JSON_parse_examples text_mismatch = Inr parsed_mismatch
   \<and> field parsed_mismatch ''rows'' = Some (JArr [JStr ''A'', JStr ''B'', JStr ''C''])
   \<and> field parsed_mismatch ''cols'' = Some (JArr [JNum (Decimal 1 0), JNum (Decimal 2 0)])
   \<and> validateAndParseJson JSON_parse_examples text_mismatch
       = \<lparr>isValid = True, data = parsed_mismatch, error = None\<rparr>
   \<and> with_default_name parsed_mismatch
       = Inr (JObj [(''rows'', JArr [JStr ''A'', JStr ''B'', JStr ''C'']),
                    (''cols'', JArr [JNum (Decimal 1 0), JNum (Decimal 2 0)]),
                    (''name'', JStr ''Custom Dataset'')])"
proof -
  have p: "JSON_parse_examples text_mismatch = Inr parsed_mismatch"
    by (simp add: JSON_parse_examples_def)
  have r: "field parsed_mismatch ''rows'' = Some (JArr [JStr ''A'', JStr ''B'', JStr ''C''])"
    by (simp add: parsed_mismatch_def field_def)
  have c: "field parsed_mismatch ''cols'' = Some (JArr [JNum (Decimal 1 0), JNum (Decimal 2 0)])"
    by (simp add: parsed_mismatch_def field_def)
  have d: "with_default_name parsed_mismatch
       = Inr (JObj [(''rows'', JArr [JStr ''A'', JStr ''B'', JStr ''C'']),
                    (''cols'', JArr [JNum (Decimal 1 0), JNum (Decimal 2 0)]),
                    (''name'', JStr ''Custom Dataset'')])"
    by (simp add: with_default_name_def parsed_mismatch_def)
  from validate_accepts_nonempty_arrays [of JSON_parse_examples text_mismatch parsed_mismatch
      "[JStr ''A'', JStr ''B'', JStr ''C'']" "[JNum (Decimal 1 0), JNum (Decimal 2 0)]"] p r c d
  show ?thesis by simp
qed

text \<open>
  C6.  A text that cannot be parsed, and a parsed value whose rows or cols is missing,
  is not an array or is an empty array, is rejected: the result is not valid, carries
  no data and carries a reason, which is the parser's message or one of the validator's
  own; the handler records the text, marks it invalid unless it is blank, and passes no
  dataset on.
\<close>

theorem validate_rejects_with_reason:
  assumes "rejected_input JSON_parse s"
  shows "isValid (validateAndParseJson JSON_parse s) = False
       \<and> data (validateAndParseJson JSON_parse s) = JNull
       \<and> (\<exists>reason. error (validateAndParseJson JSON_parse s) = Some reason
            \<and> (case JSON_parse s of
                  Inl e \<Rightarrow> reason = message e
                | Inr v \<Rightarrow> reason \<in> set
                    [''JSON must contain \"rows\" and \"cols\" arrays'',
                     ''\"rows\" and \"cols\" must be arrays'', ''Arrays cannot be empty'',
                     ''Cannot read properties of null (reading 'rows')'',
                     ''Cannot read properties of undefined (reading 'rows')'']))
       \<and> handleJsonChange JSON_parse s st =
           Inr (if blank s then st\<lparr>jsonInput := s\<rparr>
                else st\<lparr>jsonInput := s, isValidJson := False\<rparr>, None)"
proof -
  from rejected_try_validate [OF assms] obtain e where e: "try_validate JSON_parse s = Inl e"
    by blast
  have reason: "case JSON_parse s of
                  Inl e' \<Rightarrow> message e = message e'
                | Inr v \<Rightarrow> message e \<in> set
                    [''JSON must contain \"rows\" and \"cols\" arrays'',
                     ''\"rows\" and \"cols\" must be arrays'', ''Arrays cannot be empty'',
                     ''Cannot read properties of null (reading 'rows')'',
                     ''Cannot read properties of undefined (reading 'rows')'']"
  proof (cases "JSON_parse s")
    case (Inl e')
    with e show ?thesis by (simp add: try_validate_def)
  next
    case (Inr v)
    with try_validate_reason [OF e Inr] show ?thesis by simp
  qed
  from e reason show ?thesis
    by (simp add: validateAndParseJson_def handleJsonChange_def Let_def)
qed

theorem validate_rejects_with_reason_witness:
  "rejected_input JSON_parse_examples text_empty_rows
   \<and> validateAndParseJson JSON_parse_examples text_empty_rows
       = \<lparr>isValid = False, data = JNull, error = Some ''Arrays cannot be empty''\<rparr>
   \<and> handleJsonChange JSON_parse_examples text_empty_rows initial_state
       = Inr (initial_state\<lparr>jsonInput := text_empty_rows, isValidJson := False\<rparr>, None)
   \<and> rejected_input JSON_parse_examples ''not json''
   \<and> validateAndParseJson JSON_parse_examples ''not json''
       = \<lparr>isValid = False, data = JNull, error = Some ''Unexpected token''\<rparr>"
proof -
  have p: "JSON_parse_examples text_empty_rows = Inr parsed_empty_rows"
    by (simp add: JSON_parse_examples_def text_empty_rows_def text_mismatch_def
        text_named_def text_empty_name_def)
  have rej: "rejected_input JSON_parse_examples text_empty_rows"
    by (simp add: rejected_input_def p unusable_field_def field_def parsed_empty_rows_def)
  have v: "validateAndParseJson JSON_parse_examples text_empty_rows
       = \<lparr>isValid = False, data = JNull, error = Some ''Arrays cannot be empty''\<rparr>"
    by (simp add: validateAndParseJson_def try_validate_def p parsed_empty_rows_def)
  have nb: "\<not> blank text_empty_rows"
    by (simp add: text_empty_rows_def ascii_space_def space3_def)
  have q: "JSON_parse_examples ''not json'' = Inl (SyntaxError ''Unexpected token'')"
    by (simp add: JSON_parse_examples_def text_empty_rows_def text_mismatch_def
        text_named_def text_empty_name_def)
  have rej': "rejected_input JSON_parse_examples ''not json''"
    by (simp add: rejected_input_def q)
  have v': "validateAndParseJson JSON_parse_examples ''not json''
       = \<lparr>isValid = False, data = JNull, error = Some ''Unexpected token''\<rparr>"
    by (simp add: validateAndParseJson_def try_validate_def q)
  from validate_rejects_with_reason [of JSON_parse_examples text_empty_rows initial_state]
    rej v nb rej' v'
  show ?thesis by simp
qed

section \<open>The dataset handed on by handleJsonChange\<close>

lemma not_blank_examples:
  "\<not> blank text_named" "\<not> blank text_empty_name"
  by (simp_all add: text_named_def text_empty_name_def ascii_space_def space3_def)

lemma parse_examples:
  "JSON_parse_examples text_named = Inr parsed_named"
  "JSON_parse_examples text_empty_name = Inr parsed_empty_name"
  by (simp_all add: JSON_parse_examples_def text_mismatch_def text_named_def
      text_empty_name_def)

text \<open>
  C10 as stated fails.  The input \<^verbatim>\<open>{"name":"","rows":["A"],"cols":[1]}\<close> has a name
  field, the empty string; the validation succeeds, and the dataset handed on is named
  \<^verbatim>\<open>Custom Dataset\<close>, not by the input's name field.
\<close>

theorem empty_name_counterexample:
  "field parsed_empty_name ''name'' = Some (JStr [])
   \<and> isValid (validateAndParseJson JSON_parse_examples text_empty_name)
   \<and> handleJsonChange JSON_parse_examples text_empty_name initial_state
       = Inr (initial_state\<lparr>jsonInput := text_empty_name, isValidJson := True\<rparr>,
              Some (JObj [(''name'', JStr ''Custom Dataset''), (''rows'', JArr [JStr ''A'']),
                          (''cols'', JArr [JNum (Decimal 1 0)])]))"
proof -
  have v: "validateAndParseJson JSON_parse_examples text_empty_name
      = \<lparr>isValid = True, data = parsed_empty_name, error = None\<rparr>"
    by (simp add: validateAndParseJson_def try_validate_def parse_examples parsed_empty_name_def)
  have d: "with_default_name parsed_empty_name
      = Inr (JObj [(''name'', JStr ''Custom Dataset''), (''rows'', JArr [JStr ''A'']),
                   (''cols'', JArr [JNum (Decimal 1 0)])])"
    by (simp add: with_default_name_def parsed_empty_name_def)
  have f: "field parsed_empty_name ''name'' = Some (JStr [])"
    by (simp add: field_def parsed_empty_name_def)
  from v d f not_blank_examples show ?thesis
    by (simp add: handleJsonChange_def Let_def)
qed

text \<open>
  C10, amended.  On every successful validation of a text that is not blank, the
  handler marks the text valid and hands on a dataset whose name is the input's name
  field when that is present and truthy, and \<^verbatim>\<open>Custom Dataset\<close> when the field is
  absent or falsy (the empty string, 0, false, null); every other field is that of the
  input.
\<close>

theorem successful_validation_defaults_name:
  assumes "\<not> blank s" and "isValid (validateAndParseJson JSON_parse s)"
  shows "\<exists>d. handleJsonChange JSON_parse s st
                 = Inr (st\<lparr>jsonInput := s, isValidJson := True\<rparr>, Some d)
            \<and> field d ''name'' = Some (defaulted_name (data (validateAndParseJson JSON_parse s)))
            \<and> (\<forall>k. k \<noteq> ''name'' \<longrightarrow>
                  field d k = field (data (validateAndParseJson JSON_parse s)) k)"
proof -
  from assms(2) obtain v where v: "try_validate JSON_parse s = Inr v"
    by (cases "try_validate JSON_parse s") (auto simp: validateAndParseJson_def)
  from try_validate_Inr [OF v] obtain fs where fs: "v = JObj fs"
    by blast
  have r: "validateAndParseJson JSON_parse s = \<lparr>isValid = True, data = JObj fs, error = None\<rparr>"
    using v fs by (simp add: validateAndParseJson_def)
  let ?n = "if truthy (case map_of fs ''name'' of None \<Rightarrow> JUndefined | Some x \<Rightarrow> x)
            then (case map_of fs ''name'' of None \<Rightarrow> JUndefined | Some x \<Rightarrow> x)
            else JStr ''Custom Dataset''"
  let ?d = "JObj (set_property fs ''name'' ?n)"
  have w: "with_default_name (JObj fs) = Inr ?d"
    by (simp add: with_default_name_def)
  have h: "handleJsonChange JSON_parse s st
             = Inr (st\<lparr>jsonInput := s, isValidJson := True\<rparr>, Some ?d)"
    using assms(1) r w by (simp add: handleJsonChange_def Let_def)
  have n: "field ?d ''name'' = Some (defaulted_name (JObj fs))"
    by (auto simp: field_def defaulted_name_def map_of_set_property split: option.splits)
  have k: "\<forall>k. k \<noteq> ''name'' \<longrightarrow> field ?d k = field (JObj fs) k"
    by (simp add: field_def map_of_set_property)
  from h n k r show ?thesis by simp
qed

theorem successful_validation_defaults_name_witness:
  "\<not> blank text_named
   \<and> isValid (validateAndParseJson JSON_parse_examples text_named)
   \<and> handleJsonChange JSON_parse_examples text_named initial_state
       = Inr (initial_state\<lparr>jsonInput := text_named, isValidJson := True\<rparr>,
              Some (JObj [(''name'', JStr ''T''), (''rows'', JArr [JStr ''A'', JStr ''B'']),
                          (''cols'', JArr [JNum (Decimal 1 0), JNum (Decimal 2 0)])]))
   \<and> defaulted_name parsed_named = JStr ''T''
   \<and> defaulted_name parsed_mismatch = JStr ''Custom Dataset''
   \<and> defaulted_name parsed_empty_name = JStr ''Custom Dataset''"
proof -
  have v: "validateAndParseJson JSON_parse_examples text_named
      = \<lparr>isValid = True, data = parsed_named, error = None\<rparr>"
    by (simp add: validateAndParseJson_def try_validate_def parse_examples parsed_named_def)
  have d: "with_default_name parsed_named
      = Inr (JObj [(''name'', JStr ''T''), (''rows'', JArr [JStr ''A'', JStr ''B'']),
                   (''cols'', JArr [JNum (Decimal 1 0), JNum (Decimal 2 0)])])"
    by (simp add: with_default_name_def parsed_named_def)
  have n: "defaulted_name parsed_named = JStr ''T''"
      "defaulted_name parsed_mismatch = JStr ''Custom Dataset''"
      "defaulted_name parsed_empty_name = JStr ''Custom Dataset''"
    by (simp_all add: defaulted_name_def field_def parsed_named_def parsed_mismatch_def
        parsed_empty_name_def)
  have h: "handleJsonChange JSON_parse_examples text_named initial_state
       = Inr (initial_state\<lparr>jsonInput := text_named, isValidJson := True\<rparr>,
              Some (JObj [(''name'', JStr ''T''), (''rows'', JArr [JStr ''A'', JStr ''B'']),
                          (''cols'', JArr [JNum (Decimal 1 0), JNum (Decimal 2 0)])]))"
    using v d not_blank_examples by (simp add: handleJsonChange_def Let_def)
  from successful_validation_defaults_name [of text_named JSON_parse_examples initial_state]
    v h n not_blank_examples
  show ?thesis by simp
qed

end
